theory Spec2Isabelle
  imports Complex_Main
begin

section \<open>JavaScript numbers\<close>

text \<open>
  Every number of the program is a JavaScript \<^verbatim>\<open>number\<close>. The model keeps the three
  non-finite values of that type apart from the finite ones, so that a guard against a
  non-finite value (or its absence) is visible in the model. Arithmetic on two finite
  values is exact real arithmetic: rounding, overflow to an infinity and the sign of zero
  are not modelled. The special values follow IEEE 754: \<^verbatim>\<open>NaN\<close> is absorbing, opposite
  infinities cancel to \<^verbatim>\<open>NaN\<close>, an infinity times zero is \<^verbatim>\<open>NaN\<close>, every
  comparison with \<^verbatim>\<open>NaN\<close> is false, and \<^verbatim>\<open>Math.sin\<close>/\<^verbatim>\<open>Math.cos\<close> of a non-finite
  argument are \<^verbatim>\<open>NaN\<close>.
\<close>

datatype jsnum = Num real | PosInf | NegInf | NaN

fun isFinite :: "jsnum \<Rightarrow> bool" where
  "isFinite (Num r) = True"
| "isFinite PosInf = False"
| "isFinite NegInf = False"
| "isFinite NaN = False"

fun js_neg :: "jsnum \<Rightarrow> jsnum" where
  "js_neg (Num a) = Num (- a)"
| "js_neg PosInf = NegInf"
| "js_neg NegInf = PosInf"
| "js_neg NaN = NaN"

fun js_add :: "jsnum \<Rightarrow> jsnum \<Rightarrow> jsnum" where
  "js_add (Num a) (Num b) = Num (a + b)"
| "js_add NaN b = NaN"
| "js_add a NaN = NaN"
| "js_add PosInf NegInf = NaN"
| "js_add NegInf PosInf = NaN"
| "js_add PosInf b = PosInf"
| "js_add a PosInf = PosInf"
| "js_add NegInf b = NegInf"
| "js_add a NegInf = NegInf"

definition js_sub :: "jsnum \<Rightarrow> jsnum \<Rightarrow> jsnum" where
  "js_sub a b = js_add a (js_neg b)"

text \<open>The sign of an infinite product: the infinity keeps its sign against a positive
  factor, flips it against a negative one, and gives \<^verbatim>\<open>NaN\<close> against zero.\<close>

definition inf_times :: "jsnum \<Rightarrow> real \<Rightarrow> jsnum" where
  "inf_times i b = (if b = 0 then NaN else if 0 < b then i else js_neg i)"

fun js_mul :: "jsnum \<Rightarrow> jsnum \<Rightarrow> jsnum" where
  "js_mul (Num a) (Num b) = Num (a * b)"
| "js_mul NaN b = NaN"
| "js_mul a NaN = NaN"
| "js_mul PosInf (Num b) = inf_times PosInf b"
| "js_mul NegInf (Num b) = inf_times NegInf b"
| "js_mul (Num a) PosInf = inf_times PosInf a"
| "js_mul (Num a) NegInf = inf_times NegInf a"
| "js_mul PosInf PosInf = PosInf"
| "js_mul NegInf NegInf = PosInf"
| "js_mul PosInf NegInf = NegInf"
| "js_mul NegInf PosInf = NegInf"

text \<open>Division. The program only ever divides by the literals 180 and 2; for a zero
  divisor the model takes the zero as positive.\<close>

fun js_div :: "jsnum \<Rightarrow> jsnum \<Rightarrow> jsnum" where
  "js_div (Num a) (Num b) =
     (if b = 0 then (if a = 0 then NaN else if 0 < a then PosInf else NegInf)
      else Num (a / b))"
| "js_div NaN b = NaN"
| "js_div a NaN = NaN"
| "js_div (Num a) b = Num 0"
| "js_div PosInf (Num b) = (if 0 \<le> b then PosInf else NegInf)"
| "js_div NegInf (Num b) = (if 0 \<le> b then NegInf else PosInf)"
| "js_div a b = NaN"

fun js_cos :: "jsnum \<Rightarrow> jsnum" where
  "js_cos (Num a) = Num (cos a)"
| "js_cos a = NaN"

fun js_sin :: "jsnum \<Rightarrow> jsnum" where
  "js_sin (Num a) = Num (sin a)"
| "js_sin a = NaN"

definition js_PI :: jsnum where
  "js_PI = Num pi"

fun js_lt :: "jsnum \<Rightarrow> jsnum \<Rightarrow> bool" where
  "js_lt (Num a) (Num b) = (a < b)"
| "js_lt NaN b = False"
| "js_lt a NaN = False"
| "js_lt PosInf b = False"
| "js_lt a NegInf = False"
| "js_lt a PosInf = True"
| "js_lt NegInf b = True"

definition js_gt :: "jsnum \<Rightarrow> jsnum \<Rightarrow> bool" where
  "js_gt a b = js_lt b a"

definition js_le :: "jsnum \<Rightarrow> jsnum \<Rightarrow> bool" where
  "js_le a b = (js_lt a b \<or> (a = b \<and> a \<noteq> NaN))"

definition js_ge :: "jsnum \<Rightarrow> jsnum \<Rightarrow> bool" where
  "js_ge a b = js_le b a"

text \<open>\<^verbatim>\<open>Math.max\<close> and \<^verbatim>\<open>Math.min\<close> of two arguments: \<^verbatim>\<open>NaN\<close> if either is.\<close>

definition js_max :: "jsnum \<Rightarrow> jsnum \<Rightarrow> jsnum" where
  "js_max a b = (if a = NaN \<or> b = NaN then NaN else if js_lt a b then b else a)"

definition js_min :: "jsnum \<Rightarrow> jsnum \<Rightarrow> jsnum" where
  "js_min a b = (if a = NaN \<or> b = NaN then NaN else if js_lt b a then b else a)"

section \<open>Screen-space projection\<close>

text \<open>
  Both components project a latitude/longitude pair with the same spherical formulas and
  the same rotation about the vertical axis; they differ in how the rotated point is
  translated into the container.

  \<^verbatim>\<open>globeRef.current\<close> of \<^verbatim>\<open>HomepageAnimation\<close> is \<^verbatim>\<open>null\<close> until the first frame and
  \<^verbatim>\<open>{state, phi, theta}\<close> afterwards; \<^verbatim>\<open>globeStateRef.current\<close> of \<^verbatim>\<open>GlobeWithPins\<close> is
  \<^verbatim>\<open>null\<close> until \<^verbatim>\<open>handleWorldReady\<close> stores an object whose \<^verbatim>\<open>phi\<close> is read by the
  projection and whose \<^verbatim>\<open>targetPhi\<close> is written by \<^verbatim>\<open>focusOnPin\<close>. A ref that is \<^verbatim>\<open>null\<close>
  is \<open>None\<close>.
\<close>

record globe_ref =
  ref_phi :: jsnum
  ref_theta :: jsnum

record globe_state_ref =
  gs_phi :: jsnum
  gs_targetPhi :: "jsnum option"

text \<open>The wrapper element, as far as the program reads it: \<^verbatim>\<open>offsetWidth\<close>,
  \<^verbatim>\<open>offsetHeight\<close>, \<^verbatim>\<open>offsetLeft\<close> and the \<^verbatim>\<open>left\<close>/\<^verbatim>\<open>top\<close> of
  \<^verbatim>\<open>getBoundingClientRect()\<close>.\<close>

record wrapper =
  offsetWidth :: jsnum
  offsetHeight :: jsnum
  offsetLeft :: jsnum
  rect_left :: jsnum
  rect_top :: jsnum

record screen_pos =
  pos_x :: jsnum
  pos_y :: jsnum
  pos_visible :: bool

record canvas_size =
  size_w :: jsnum
  size_h :: jsnum

definition not_ready :: screen_pos where
  "not_ready = \<lparr>pos_x = Num (- 9999), pos_y = Num (- 9999), pos_visible = False\<rparr>"

text \<open>\<^verbatim>\<open>latLngToScreen\<close> of \<^verbatim>\<open>HomepageAnimation\<close>.\<close>

definition latLngToScreen ::
  "globe_ref option \<Rightarrow> wrapper option \<Rightarrow> canvas_size \<Rightarrow> jsnum \<Rightarrow> jsnum \<Rightarrow> screen_pos" where
  "latLngToScreen globeRef wrapperRef sz lat lng =
     (case globeRef of None \<Rightarrow> not_ready | Some g \<Rightarrow>
      (case wrapperRef of None \<Rightarrow> not_ready | Some w \<Rightarrow>
        (let lambda = js_div (js_mul lng js_PI) (Num 180);
             phiLat = js_div (js_mul lat js_PI) (Num 180);
             cx = js_mul (js_cos phiLat) (js_cos lambda);
             cy = js_sin phiLat;
             cz = js_mul (js_cos phiLat) (js_sin lambda);
             rot = ref_phi g;
             xr = js_add (js_mul cx (js_cos rot)) (js_mul cz (js_sin rot));
             zr = js_add (js_mul (js_neg cx) (js_sin rot)) (js_mul cz (js_cos rot));
             R = js_div (js_min (size_w sz) (size_h sz)) (Num 2);
             scale = js_mul R (Num 0.95);
             sx = js_add (js_div (size_w sz) (Num 2)) (js_mul xr scale);
             sy = js_sub (js_div (size_h sz) (Num 2)) (js_mul cy scale);
             visible = js_gt zr (Num 0.02)
         in \<lparr>pos_x = sx, pos_y = sy, pos_visible = visible\<rparr>)))"

text \<open>\<^verbatim>\<open>latLngToScreen\<close> of \<^verbatim>\<open>GlobeWithPins\<close>; \<open>scrollY\<close> is \<^verbatim>\<open>window.scrollY\<close>.\<close>

definition latLngToScreen_pins ::
  "globe_state_ref option \<Rightarrow> wrapper option \<Rightarrow> jsnum \<Rightarrow> jsnum \<Rightarrow> jsnum \<Rightarrow> screen_pos" where
  "latLngToScreen_pins globeStateRef wrapperRef scrollY lat lng =
     (case globeStateRef of None \<Rightarrow> not_ready | Some g \<Rightarrow>
      (case wrapperRef of None \<Rightarrow> not_ready | Some w \<Rightarrow>
        (let R = js_div (offsetWidth w) (Num 2);
             lambda = js_div (js_mul lng js_PI) (Num 180);
             phiLat = js_div (js_mul lat js_PI) (Num 180);
             cx = js_mul (js_cos phiLat) (js_cos lambda);
             cy = js_sin phiLat;
             cz = js_mul (js_cos phiLat) (js_sin lambda);
             rot = gs_phi g;
             xr = js_add (js_mul cx (js_cos rot)) (js_mul cz (js_sin rot));
             zr = js_add (js_mul (js_neg cx) (js_sin rot)) (js_mul cz (js_cos rot));
             scale = js_mul R (Num 0.95);
             sx = js_sub (js_add (js_add (offsetLeft w) R) (js_mul xr scale)) (rect_left w);
             sy = js_sub (js_sub (js_add (rect_top w) R) (js_mul cy scale)) scrollY;
             visible = js_gt zr (Num 0.02);
             localX = js_sub sx (rect_left w);
             localY = js_sub sy (rect_top w)
         in \<lparr>pos_x = localX, pos_y = localY, pos_visible = visible\<rparr>)))"

section \<open>HomepageAnimation: rotation and the card sequence\<close>

record player =
  p_id :: nat
  p_name :: string
  mapCoord :: "jsnum \<times> jsnum"

definition players :: "player list" where
  "players =
    [\<lparr>p_id = 1, p_name = ''Faouzi Ghoulam'', mapCoord = (Num 36, Num 3)\<rparr>,
     \<lparr>p_id = 2, p_name = ''Kalidou Koulibaly'', mapCoord = (Num 14, Num (- 17))\<rparr>,
     \<lparr>p_id = 3, p_name = ''Killian Hayes'', mapCoord = (Num 47, Num (- 2))\<rparr>]"

definition SHOW_MS :: nat where
  "SHOW_MS = 1400"

definition FADE_MS :: nat where
  "FADE_MS = 300"

definition LOOPS :: nat where
  "LOOPS = 1"

text \<open>\<^verbatim>\<open>lonToPhi\<close>: the target rotation for a longitude in degrees.\<close>

definition lonToPhi :: "jsnum \<Rightarrow> jsnum" where
  "lonToPhi lon = js_neg (js_div (js_mul lon js_PI) (Num 180))"

text \<open>\<^verbatim>\<open>Array.prototype.findIndex\<close>: the first index whose element satisfies the
  predicate, \<open>-1\<close> when there is none.\<close>

fun findIndex_from :: "('a \<Rightarrow> bool) \<Rightarrow> 'a list \<Rightarrow> int \<Rightarrow> int" where
  "findIndex_from P [] i = - 1"
| "findIndex_from P (x # xs) i = (if P x then i else findIndex_from P xs (i + 1))"

definition findIndex :: "('a \<Rightarrow> bool) \<Rightarrow> 'a list \<Rightarrow> int" where
  "findIndex P xs = findIndex_from P xs 0"

text \<open>
  The asynchronous function \<^verbatim>\<open>run\<close> is suspended at one of its two \<^verbatim>\<open>await\<close>s or has
  returned. Real time is abstracted: the expiry of the pending \<^verbatim>\<open>setTimeout\<close> is an event.
\<close>

datatype run_pc = NotStarted | AwaitShow | AwaitFade | Returned

text \<open>
  The state of a mounted \<^verbatim>\<open>HomepageAnimation\<close>:
  \<^item> the React state \<open>activeIndex\<close>, \<open>running\<close>, \<open>loopsDone\<close> and the ref \<open>targetPhi\<close>
    (\<open>None\<close> is \<^verbatim>\<open>null\<close>);
  \<^item> \<open>phi\<close>, \<open>theta\<close>: the variables of the effect that creates the globe, and
    \<open>globeRef\<close>, which \<^verbatim>\<open>onRender\<close> fills; \<open>destroyed\<close> after \<^verbatim>\<open>globe.destroy()\<close>;
  \<^item> \<open>mounted\<close>, \<open>timer\<close> (the delay of the pending timeout), \<open>idx\<close>, \<open>localLoop\<close>:
    the variables of the effect that runs the sequence, and \<open>pc\<close>, where \<^verbatim>\<open>run\<close> stands;
  \<^item> \<open>run_running\<close>: the binding of \<^verbatim>\<open>running\<close> that \<^verbatim>\<open>run\<close> reads in its loop
    condition. The effect has the dependency list \<^verbatim>\<open>[]\<close>, so it runs once, after the
    first render, and its closure holds the \<^verbatim>\<open>running\<close> constant of that render, the
    initial value of \<^verbatim>\<open>useState(true)\<close>. \<^verbatim>\<open>setRunning\<close> changes the state that later
    renders read; it never changes this binding.
\<close>

record anim =
  activeIndex :: "int option"
  running :: bool
  loopsDone :: nat
  targetPhi :: "jsnum option"
  phi :: jsnum
  theta :: jsnum
  globeRef :: "globe_ref option"
  destroyed :: bool
  run_running :: bool
  mounted :: bool
  timer :: "nat option"
  idx :: nat
  localLoop :: nat
  pc :: run_pc

text \<open>The per-frame callback \<^verbatim>\<open>onRender\<close>. \<^verbatim>\<open>typeof t === "number"\<close> holds for every
  number, \<^verbatim>\<open>NaN\<close> and the infinities included, and fails for \<^verbatim>\<open>null\<close>.\<close>

definition onRender :: "anim \<Rightarrow> anim" where
  "onRender s =
     (let t = targetPhi s;
          phi' = (case t of
                    Some tn \<Rightarrow> (let diff = js_sub tn (phi s)
                                in js_add (phi s) (js_mul diff (Num 0.06)))
                  | None \<Rightarrow> js_add (phi s) (Num 0.0006))
      in s\<lparr>phi := phi', globeRef := Some \<lparr>ref_phi = phi', ref_theta = theta s\<rparr>\<rparr>)"

text \<open>The head of the \<^verbatim>\<open>while\<close> loop of \<^verbatim>\<open>run\<close>, up to the first \<^verbatim>\<open>await\<close>.
  \<open>idx\<close> stays below the number of players (it is reduced modulo that number).\<close>

definition loop_head :: "anim \<Rightarrow> anim" where
  "loop_head s =
     (if mounted s \<and> run_running s then
        (let lon = snd (mapCoord (players ! idx s))
         in s\<lparr>targetPhi := Some (lonToPhi lon), activeIndex := Some (int (idx s)),
              timer := Some SHOW_MS, pc := AwaitShow\<rparr>)
      else s\<lparr>pc := Returned\<rparr>)"

text \<open>The call \<^verbatim>\<open>run()\<close> of the effect: the closure takes the \<^verbatim>\<open>running\<close> of the
  render whose effect this is, and the loop starts with \<^verbatim>\<open>idx = 0\<close>,
  \<^verbatim>\<open>localLoop = 0\<close>.\<close>

definition run :: "anim \<Rightarrow> anim" where
  "run s = loop_head (s\<lparr>run_running := running s, idx := 0, localLoop := 0\<rparr>)"

text \<open>The pending timeout expires and \<^verbatim>\<open>run\<close> resumes up to its next \<^verbatim>\<open>await\<close>.\<close>

definition timer_fired :: "anim \<Rightarrow> anim" where
  "timer_fired s =
     (case pc s of
        AwaitShow \<Rightarrow>
          (if \<not> mounted s then s\<lparr>timer := None, pc := Returned\<rparr>
           else s\<lparr>activeIndex := None, timer := Some FADE_MS, pc := AwaitFade\<rparr>)
      | AwaitFade \<Rightarrow>
          (if \<not> mounted s then s\<lparr>timer := None, pc := Returned\<rparr>
           else
             (let i = (idx s + 1) mod length players in
              if i = 0 then
                (let l = localLoop s + 1 in
                 if LOOPS \<le> l then
                   s\<lparr>idx := i, localLoop := l, loopsDone := l, running := False,
                     targetPhi := None, timer := None, pc := Returned\<rparr>
                 else loop_head (s\<lparr>idx := i, localLoop := l, loopsDone := l, timer := None\<rparr>))
              else loop_head (s\<lparr>idx := i, timer := None\<rparr>)))
      | _ \<Rightarrow> s)"

text \<open>The \<^verbatim>\<open>onClick\<close> of the \<open>k\<close>-th marker button.\<close>

definition pin_onClick :: "nat \<Rightarrow> anim \<Rightarrow> anim" where
  "pin_onClick k s =
     (if k < length players then
        (let p = players ! k
         in s\<lparr>activeIndex := Some (findIndex (\<lambda>pl. p_id pl = p_id p) players),
              targetPhi := Some (lonToPhi (snd (mapCoord p))),
              running := False\<rparr>)
      else s)"

text \<open>The cleanups of both effects: \<^verbatim>\<open>mounted = false\<close>, \<^verbatim>\<open>clearTimeout(timer)\<close> (the
  suspended \<^verbatim>\<open>run\<close> is never resumed) and \<^verbatim>\<open>globe.destroy()\<close>.\<close>

definition unmount :: "anim \<Rightarrow> anim" where
  "unmount s = s\<lparr>mounted := False, timer := None, pc := Returned, destroyed := True\<rparr>"

datatype event = Frame | TimerFired | PinClick nat | CardClick | Unmount

fun step :: "anim \<Rightarrow> event \<Rightarrow> anim" where
  "step s Frame = (if destroyed s then s else onRender s)"
| "step s TimerFired = timer_fired s"
| "step s (PinClick k) = pin_onClick k s"
| "step s CardClick = s\<lparr>activeIndex := None\<rparr>"
| "step s Unmount = unmount s"

definition exec :: "anim \<Rightarrow> event list \<Rightarrow> anim" where
  "exec s evs = foldl step s evs"

text \<open>The component after mounting: the first render's state, the globe created with
  \<^verbatim>\<open>phi = Math.PI * 0.45\<close> and \<^verbatim>\<open>theta = 0.45\<close>, and \<^verbatim>\<open>run()\<close> called. (A
  change of the canvas size creates the globe anew; resizing is outside this model.)\<close>

definition first_render :: anim where
  "first_render =
     \<lparr>activeIndex = None, running = True, loopsDone = 0, targetPhi = None,
      phi = js_mul js_PI (Num 0.45), theta = Num 0.45, globeRef = None,
      destroyed = False, run_running = True, mounted = True, timer = None,
      idx = 0, localLoop = 0, pc = NotStarted\<rparr>"

definition mount :: anim where
  "mount = run first_render"

text \<open>The anchor of the active card in \<^verbatim>\<open>HomepageAnimation\<close>.\<close>

record card_style =
  card_left :: jsnum
  card_top :: jsnum

definition card_anchor :: "canvas_size \<Rightarrow> screen_pos \<Rightarrow> card_style" where
  "card_anchor sz pos =
     (let adjustedY = js_sub (pos_y pos) (js_div (size_h sz) (Num 2));
          visible = (pos_visible pos \<and> js_ge adjustedY (Num 0)
                     \<and> js_le adjustedY (js_div (size_h sz) (Num 2)));
          left = js_max (Num 60) (js_min (js_sub (size_w sz) (Num 60)) (pos_x pos));
          top = (if visible then js_max (Num 36) (js_sub adjustedY (Num 72)) else Num 36)
      in \<lparr>card_left = left, card_top = top\<rparr>)"

section \<open>GlobeWithPins and World\<close>

record pin =
  pin_id :: nat
  pin_label :: string
  pin_lat :: jsnum
  pin_lng :: jsnum

definition PINS :: "pin list" where
  "PINS =
    [\<lparr>pin_id = 1, pin_label = ''New Delhi'', pin_lat = Num 28.6139, pin_lng = Num 77.2090\<rparr>,
     \<lparr>pin_id = 2, pin_label = ''London'', pin_lat = Num 51.5072, pin_lng = Num (- 0.1276)\<rparr>,
     \<lparr>pin_id = 3, pin_label = ''New York'', pin_lat = Num 40.7128, pin_lng = Num (- 74.0060)\<rparr>]"

text \<open>\<^verbatim>\<open>focusOnPin\<close>: the target is stored only when \<^verbatim>\<open>globeStateRef.current\<close> is set.\<close>

definition focusOnPin ::
  "pin \<Rightarrow> globe_state_ref option \<times> pin option \<Rightarrow> globe_state_ref option \<times> pin option" where
  "focusOnPin pn st =
     (let target = js_neg (js_div (js_mul (pin_lng pn) js_PI) (Num 180));
          gref = (case fst st of None \<Rightarrow> None
                  | Some g \<Rightarrow> Some (g\<lparr>gs_targetPhi := Some target\<rparr>))
      in (gref, Some pn))"

text \<open>The options of \<^verbatim>\<open>globeConfig\<close> that \<^verbatim>\<open>World\<close> reads with \<^verbatim>\<open>??\<close>; \<open>None\<close> is an
  option left out.\<close>

record globeConfig =
  autoRotateSpeed :: "jsnum option"
  initialPhi :: "jsnum option"
  initialTheta :: "jsnum option"

definition pins_globeConfig :: globeConfig where
  "pins_globeConfig =
     \<lparr>autoRotateSpeed = Some (Num 0.0012), initialPhi = Some (Num (- 0.6)),
      initialTheta = Some (Num 0.35)\<rparr>"

text \<open>\<^verbatim>\<open>onRender\<close> of \<^verbatim>\<open>World\<close>, on the \<^verbatim>\<open>phi\<close> of its closure.\<close>

definition World_onRender :: "globeConfig \<Rightarrow> jsnum \<Rightarrow> jsnum" where
  "World_onRender cfg p =
     js_add p (case autoRotateSpeed cfg of Some v \<Rightarrow> v | None \<Rightarrow> Num 0.0008)"

text \<open>The anchor of the popup card in \<^verbatim>\<open>GlobeWithPins\<close>. \<^verbatim>\<open>pos.x\<close> and \<^verbatim>\<open>pos.y\<close> are
  always numbers, so their \<^verbatim>\<open>??\<close> defaults are never taken; the wrapper's width falls
  back to 680 while the ref is \<^verbatim>\<open>null\<close>.\<close>

definition popup_anchor :: "wrapper option \<Rightarrow> screen_pos \<Rightarrow> card_style" where
  "popup_anchor wrapperRef pos =
     (let W = (case wrapperRef of Some w \<Rightarrow> offsetWidth w | None \<Rightarrow> Num 680);
          left = js_max (Num 48) (js_min (js_sub W (Num 48)) (pos_x pos));
          top = js_sub (pos_y pos) (Num 110);
          visible = (pos_visible pos \<and> js_gt top (Num 0));
          cardLeft = (if visible then left else js_div W (Num 2));
          cardTop = (if visible then js_max (Num 24) top else Num 28)
      in \<lparr>card_left = cardLeft, card_top = cardTop\<rparr>)"

text \<open>
  The mounted \<^verbatim>\<open>GlobeWithPins\<close> with its \<^verbatim>\<open>World\<close>. The effect of \<^verbatim>\<open>World\<close> starts its
  closure at \<^verbatim>\<open>globeConfig.initialPhi ?? -0.6\<close> and \<^verbatim>\<open>globeConfig.initialTheta ?? 0.35\<close>.
  \<^verbatim>\<open>World\<close> takes \<^verbatim>\<open>onReady\<close> as a prop and never calls it, and \<^verbatim>\<open>handleWorldReady\<close> is the
  only writer of \<^verbatim>\<open>globeStateRef.current\<close>: the ref starts as \<^verbatim>\<open>useRef(null)\<close> and the
  only later access is the guarded write of \<^verbatim>\<open>focusOnPin\<close>.
\<close>

record pins_state =
  globeStateRef :: "globe_state_ref option"
  activePin :: "pin option"
  world_phi :: jsnum
  world_theta :: jsnum

definition pins_mount :: pins_state where
  "pins_mount =
     \<lparr>globeStateRef = None, activePin = None,
      world_phi = (case initialPhi pins_globeConfig of Some v \<Rightarrow> v | None \<Rightarrow> Num (- 0.6)),
      world_theta = (case initialTheta pins_globeConfig of Some v \<Rightarrow> v | None \<Rightarrow> Num 0.35)\<rparr>"

text \<open>The events of the mounted component: a rendered frame, the \<^verbatim>\<open>onClick\<close> of the
  \<open>k\<close>-th pin button (it calls \<^verbatim>\<open>focusOnPin\<close> with that pin's fields), and a click on
  the popup (\<^verbatim>\<open>setActivePin(null)\<close>).\<close>

datatype pins_event = PinsFrame | PinsClick nat | PopupClick

fun pins_step :: "pins_state \<Rightarrow> pins_event \<Rightarrow> pins_state" where
  "pins_step s PinsFrame = s\<lparr>world_phi := World_onRender pins_globeConfig (world_phi s)\<rparr>"
| "pins_step s (PinsClick k) =
     (if k < length PINS then
        (let r = focusOnPin (PINS ! k) (globeStateRef s, activePin s)
         in s\<lparr>globeStateRef := fst r, activePin := snd r\<rparr>)
      else s)"
| "pins_step s PopupClick = s\<lparr>activePin := None\<rparr>"

definition pins_exec :: "pins_state \<Rightarrow> pins_event list \<Rightarrow> pins_state" where
  "pins_exec s evs = foldl pins_step s evs"

section \<open>The seek step of the specification\<close>

text \<open>The one-frame seek as the specification words it, for a strength \<open>s\<close> and a target
  \<open>T\<close>: \<open>phi' = phi + (T - phi) * s\<close>. It is compared with \<^verbatim>\<open>onRender\<close> below.\<close>

definition seek_step :: "real \<Rightarrow> real \<Rightarrow> real \<Rightarrow> real" where
  "seek_step s T p = p + (T - p) * s"

section \<open>The projection on finite inputs\<close>


lemma latLngToScreen_pins_finite:
  "latLngToScreen_pins (Some \<lparr>gs_phi = Num p, gs_targetPhi = tg\<rparr>)
       (Some \<lparr>offsetWidth = Num ow, offsetHeight = oh, offsetLeft = Num ol,
              rect_left = Num rl, rect_top = Num rt\<rparr>) (Num sy) (Num la) (Num lo) =
     \<lparr>pos_x = Num (ol + ow / 2 +
         (cos (la * pi / 180) * cos (lo * pi / 180) * cos p
          + cos (la * pi / 180) * sin (lo * pi / 180) * sin p) * (ow / 2 * 0.95) - rl - rl),
      pos_y = Num (rt + ow / 2 - sin (la * pi / 180) * (ow / 2 * 0.95) - sy - rt),
      pos_visible = (0.02 < - (cos (la * pi / 180) * cos (lo * pi / 180)) * sin p
          + cos (la * pi / 180) * sin (lo * pi / 180) * cos p)\<rparr>"
  by (simp add: latLngToScreen_pins_def js_PI_def js_sub_def js_gt_def)

lemma isFinite_iff: "isFinite a = (\<exists>r. a = Num r)"
  by (cases a) simp_all

lemma depth_as_sine:
  "- (cos a * cos l) * sin p + cos a * sin l * cos p = cos (a::real) * sin (l - p)"
proof -
  have "cos a * sin (l - p) = cos a * (sin l * cos p - cos l * sin p)"
    by (simp only: sin_diff)
  also have "\<dots> = - (cos a * cos l) * sin p + cos a * sin l * cos p"
    by (simp add: algebra_simps)
  finally show ?thesis by simp
qed

section \<open>The not-ready guard\<close>

text \<open>
  C9. While the rotation state or the wrapper element is not yet set, \<^verbatim>\<open>latLngToScreen\<close>
  of either component returns \<^verbatim>\<open>{x: -9999, y: -9999, visible: false}\<close>, whatever
  latitude and longitude it is given.
\<close>

theorem latLngToScreen_not_ready:
  "(g = None \<or> w = None \<longrightarrow>
      latLngToScreen g w sz lat lng =
        \<lparr>pos_x = Num (- 9999), pos_y = Num (- 9999), pos_visible = False\<rparr>)
   \<and> (gs = None \<or> w' = None \<longrightarrow>
      latLngToScreen_pins gs w' scrollY lat' lng' =
        \<lparr>pos_x = Num (- 9999), pos_y = Num (- 9999), pos_visible = False\<rparr>)"
  by (auto simp: latLngToScreen_def latLngToScreen_pins_def not_ready_def
      split: option.splits)

theorem latLngToScreen_not_ready_witness:
  "latLngToScreen None None \<lparr>size_w = Num 920, size_h = Num 460\<rparr> (Num 36) (Num 3) =
      \<lparr>pos_x = Num (- 9999), pos_y = Num (- 9999), pos_visible = False\<rparr>
   \<and> latLngToScreen_pins None
        (Some \<lparr>offsetWidth = Num 680, offsetHeight = Num 680, offsetLeft = Num 260,
               rect_left = Num 360, rect_top = Num 200\<rparr>)
        (Num 0) (Num 28.6139) (Num 77.2090) =
      \<lparr>pos_x = Num (- 9999), pos_y = Num (- 9999), pos_visible = False\<rparr>"
  using latLngToScreen_not_ready
    [where g = None and w = None and sz = "\<lparr>size_w = Num 920, size_h = Num 460\<rparr>"
       and lat = "Num 36" and lng = "Num 3" and gs = None
       and w' = "Some \<lparr>offsetWidth = Num 680, offsetHeight = Num 680, offsetLeft = Num 260,
               rect_left = Num 360, rect_top = Num 200\<rparr>"
       and scrollY = "Num 0" and lat' = "Num 28.6139" and lng' = "Num 77.2090"]
  by simp

section \<open>Finiteness of the projection\<close>

text \<open>
  C7. For finite latitude, longitude and rotation angle (in particular every latitude in
  \<open>[-90, 90]\<close>, the poles included, and every longitude in \<open>[-180, 180]\<close>) and finite
  container geometry, the \<open>x\<close> and \<open>y\<close> that \<^verbatim>\<open>latLngToScreen\<close> returns are finite
  numbers, in both components: no operation of the projection yields \<^verbatim>\<open>NaN\<close> or an
  infinity from finite operands.
\<close>

theorem latLngToScreen_returns_finite:
  assumes "isFinite lat" and "isFinite lng"
  shows "(isFinite (ref_phi g) \<and> isFinite (size_w sz) \<and> isFinite (size_h sz) \<longrightarrow>
            isFinite (pos_x (latLngToScreen (Some g) wr sz lat lng))
          \<and> isFinite (pos_y (latLngToScreen (Some g) wr sz lat lng)))
       \<and> (isFinite (gs_phi gs) \<and> isFinite (offsetWidth w) \<and> isFinite (offsetLeft w)
            \<and> isFinite (rect_left w) \<and> isFinite (rect_top w) \<and> isFinite scrollY \<longrightarrow>
            isFinite (pos_x (latLngToScreen_pins (Some gs) (Some w) scrollY lat lng))
          \<and> isFinite (pos_y (latLngToScreen_pins (Some gs) (Some w) scrollY lat lng)))"
proof -
  from assms obtain la lo where ll: "lat = Num la" "lng = Num lo"
    by (auto simp: isFinite_iff)
  have home: "isFinite (pos_x (latLngToScreen (Some g) wr sz lat lng))
          \<and> isFinite (pos_y (latLngToScreen (Some g) wr sz lat lng))"
    if "isFinite (ref_phi g)" "isFinite (size_w sz)" "isFinite (size_h sz)"
  proof -
    from that obtain p sw sh where
      "ref_phi g = Num p" "size_w sz = Num sw" "size_h sz = Num sh"
      by (auto simp: isFinite_iff)
    then show ?thesis
      by (cases wr)
        (simp_all add: ll latLngToScreen_def not_ready_def js_PI_def js_sub_def js_min_def Let_def)
  qed
  have pins: "isFinite (pos_x (latLngToScreen_pins (Some gs) (Some w) scrollY lat lng))
          \<and> isFinite (pos_y (latLngToScreen_pins (Some gs) (Some w) scrollY lat lng))"
    if "isFinite (gs_phi gs)" "isFinite (offsetWidth w)" "isFinite (offsetLeft w)"
      "isFinite (rect_left w)" "isFinite (rect_top w)" "isFinite scrollY"
  proof -
    from that obtain p ow ol rl rt sy where
      "gs_phi gs = Num p" "offsetWidth w = Num ow" "offsetLeft w = Num ol"
      "rect_left w = Num rl" "rect_top w = Num rt" "scrollY = Num sy"
      by (auto simp: isFinite_iff)
    then show ?thesis
      by (simp add: ll latLngToScreen_pins_def js_PI_def js_sub_def Let_def)
  qed
  from home pins show ?thesis by blast
qed

theorem latLngToScreen_returns_finite_witness:
  "isFinite (pos_x (latLngToScreen (Some \<lparr>ref_phi = Num 0, ref_theta = Num 0.45\<rparr>)
       (Some \<lparr>offsetWidth = Num 920, offsetHeight = Num 460, offsetLeft = Num 0,
              rect_left = Num 0, rect_top = Num 0\<rparr>)
       \<lparr>size_w = Num 920, size_h = Num 920\<rparr> (Num 90) (Num (- 180))))
   \<and> isFinite (pos_y (latLngToScreen (Some \<lparr>ref_phi = Num 0, ref_theta = Num 0.45\<rparr>)
       (Some \<lparr>offsetWidth = Num 920, offsetHeight = Num 460, offsetLeft = Num 0,
              rect_left = Num 0, rect_top = Num 0\<rparr>)
       \<lparr>size_w = Num 920, size_h = Num 920\<rparr> (Num 90) (Num (- 180))))
   \<and> isFinite (pos_x (latLngToScreen_pins (Some \<lparr>gs_phi = Num 0, gs_targetPhi = None\<rparr>)
       (Some \<lparr>offsetWidth = Num 680, offsetHeight = Num 680, offsetLeft = Num 260,
              rect_left = Num 360, rect_top = Num 200\<rparr>) (Num 0) (Num 90) (Num (- 180))))
   \<and> isFinite (pos_y (latLngToScreen_pins (Some \<lparr>gs_phi = Num 0, gs_targetPhi = None\<rparr>)
       (Some \<lparr>offsetWidth = Num 680, offsetHeight = Num 680, offsetLeft = Num 260,
              rect_left = Num 360, rect_top = Num 200\<rparr>) (Num 0) (Num 90) (Num (- 180))))"
  using latLngToScreen_returns_finite
    [where lat = "Num 90" and lng = "Num (- 180)"
       and g = "\<lparr>ref_phi = Num 0, ref_theta = Num 0.45\<rparr>"
       and sz = "\<lparr>size_w = Num 920, size_h = Num 920\<rparr>"
       and wr = "Some \<lparr>offsetWidth = Num 920, offsetHeight = Num 460, offsetLeft = Num 0,
              rect_left = Num 0, rect_top = Num 0\<rparr>"
       and gs = "\<lparr>gs_phi = Num 0, gs_targetPhi = None\<rparr>"
       and w = "\<lparr>offsetWidth = Num 680, offsetHeight = Num 680, offsetLeft = Num 260,
              rect_left = Num 360, rect_top = Num 200\<rparr>"
       and scrollY = "Num 0"]
  by simp

section \<open>The depth test and the seek target\<close>

text \<open>The depth of the rotated point is \<open>cos lat * sin (lambda - phi)\<close>: the point that
  faces the viewer has longitude \<open>phi + 90\<close> degrees.\<close>

lemma latLngToScreen_visible_iff:
  "pos_visible (latLngToScreen (Some \<lparr>ref_phi = Num p, ref_theta = th\<rparr>) (Some w) sz
       (Num la) (Num lo)) =
     (0.02 < cos (la * pi / 180) * sin (lo * pi / 180 - p))"
  by (simp add: latLngToScreen_def js_PI_def js_gt_def Let_def depth_as_sine
      del: mult_minus_left)

lemma latLngToScreen_pins_visible_iff:
  "pos_visible (latLngToScreen_pins (Some \<lparr>gs_phi = Num p, gs_targetPhi = tg\<rparr>) (Some w) sy
       (Num la) (Num lo)) =
     (0.02 < cos (la * pi / 180) * sin (lo * pi / 180 - p))"
  by (simp add: latLngToScreen_pins_def js_PI_def js_gt_def Let_def depth_as_sine
      del: mult_minus_left)

text \<open>
  C2. The claim is that the point with latitude 0 and longitude \<open>-phi\<close> (in degrees) is
  visible at every rotation \<open>phi\<close>. At \<open>phi = 0\<close> that point is latitude 0, longitude 0; the
  projection of both components gives it the depth 0, which fails the test \<open>zr > 0.02\<close>.
\<close>

theorem facing_center_hidden_at_phi_zero:
  "pos_visible (latLngToScreen (Some \<lparr>ref_phi = Num 0, ref_theta = Num 0.45\<rparr>) (Some w)
       \<lparr>size_w = Num 920, size_h = Num 920\<rparr> (Num 0)
       (js_div (js_mul (js_neg (Num 0)) (Num 180)) js_PI)) = False
   \<and> pos_visible (latLngToScreen_pins (Some \<lparr>gs_phi = Num 0, gs_targetPhi = None\<rparr>) (Some w')
       (Num 0) (Num 0) (js_div (js_mul (js_neg (Num 0)) (Num 180)) js_PI)) = False"
  by (simp add: js_PI_def latLngToScreen_visible_iff latLngToScreen_pins_visible_iff)

section \<open>The per-frame rotation update\<close>

lemma lonToPhi_finite: "lonToPhi (Num L) = Num (- (L * pi / 180))"
  by (simp add: lonToPhi_def js_PI_def)

lemma onRender_seek:
  "targetPhi s = Some (Num t) \<Longrightarrow> phi s = Num p \<Longrightarrow>
     phi (onRender s) = Num (p + (t - p) * 0.06)"
  by (simp add: onRender_def js_sub_def Let_def)

lemma onRender_idle:
  "targetPhi s = None \<Longrightarrow> phi s = Num p \<Longrightarrow> phi (onRender s) = Num (p + 0.0006)"
  by (simp add: onRender_def Let_def)

lemma onRender_targetPhi: "targetPhi (onRender s) = targetPhi s"
  by (simp add: onRender_def Let_def)

lemma frames_targetPhi: "targetPhi ((onRender ^^ n) s) = targetPhi s"
  by (induction n) (simp_all add: onRender_targetPhi)

lemma frames_seek_finite:
  "targetPhi s = Some (Num t) \<Longrightarrow> phi s = Num p \<Longrightarrow> \<exists>q. phi ((onRender ^^ n) s) = Num q"
proof (induction n)
  case 0
  then show ?case by simp
next
  case (Suc n)
  then obtain q where "phi ((onRender ^^ n) s) = Num q" by blast
  moreover have "targetPhi ((onRender ^^ n) s) = Some (Num t)"
    using Suc.prems(1) by (simp add: frames_targetPhi)
  ultimately show ?case by (simp add: onRender_seek)
qed

text \<open>Both the marker click and the sequence store \<^verbatim>\<open>lonToPhi\<close> of the point's
  longitude as the target.\<close>

lemma pin_onClick_sets_target:
  "k < length players \<Longrightarrow>
     targetPhi (pin_onClick k s) = Some (lonToPhi (snd (mapCoord (players ! k))))"
  by (simp add: pin_onClick_def Let_def)

lemma loop_head_sets_target:
  "mounted s \<Longrightarrow> run_running s \<Longrightarrow>
     targetPhi (loop_head s) = Some (lonToPhi (snd (mapCoord (players ! idx s))))"
  by (simp add: loop_head_def Let_def)

text \<open>
  In \<^verbatim>\<open>HomepageAnimation\<close>, when the target is \<^verbatim>\<open>lonToPhi(L)\<close> for a longitude \<open>L\<close> (as
  the marker click and the sequence set it), the target is \<open>- (L * pi / 180)\<close>, every
  frame leaves the target in place, and every frame replaces \<open>phi\<close> by
  \<open>phi + (target - phi) * 0.06\<close>.
\<close>

theorem seek_frame_update:
  assumes "targetPhi s = Some (lonToPhi (Num L))" and "phi s = Num p"
  shows "lonToPhi (Num L) = Num (- (L * pi / 180))
       \<and> phi (onRender s) = Num (p + (- (L * pi / 180) - p) * 0.06)
       \<and> (\<forall>n. targetPhi ((onRender ^^ n) s) = Some (Num (- (L * pi / 180)))
            \<and> (\<exists>q. phi ((onRender ^^ n) s) = Num q
                 \<and> phi ((onRender ^^ Suc n) s) = Num (q + (- (L * pi / 180) - q) * 0.06)))"
proof -
  have tg: "targetPhi s = Some (Num (- (L * pi / 180)))"
    using assms(1) by (simp add: lonToPhi_finite)
  have "\<exists>q. phi ((onRender ^^ n) s) = Num q
           \<and> phi ((onRender ^^ Suc n) s) = Num (q + (- (L * pi / 180) - q) * 0.06)" for n
  proof -
    obtain q where q: "phi ((onRender ^^ n) s) = Num q"
      using frames_seek_finite [OF tg assms(2)] by blast
    have "targetPhi ((onRender ^^ n) s) = Some (Num (- (L * pi / 180)))"
      by (simp add: frames_targetPhi tg)
    then have "phi (onRender ((onRender ^^ n) s)) = Num (q + (- (L * pi / 180) - q) * 0.06)"
      using q by (rule onRender_seek)
    with q show ?thesis by simp
  qed
  then show ?thesis
    using tg assms(2) by (simp add: lonToPhi_finite frames_targetPhi onRender_seek)
qed

theorem seek_frame_update_witness:
  "phi (onRender (pin_onClick 1 mount)) =
     Num (pi * 0.45 + (- (- 17 * pi / 180) - pi * 0.45) * 0.06)"
proof -
  have t: "targetPhi (pin_onClick 1 mount) = Some (lonToPhi (Num (- 17)))"
    by (simp add: pin_onClick_def players_def Let_def)
  have p: "phi (pin_onClick 1 mount) = Num (pi * 0.45)"
    by (simp add: pin_onClick_def players_def Let_def mount_def run_def loop_head_def
        first_render_def js_PI_def)
  from seek_frame_update [OF t p] show ?thesis by simp
qed

section \<open>The marker click of GlobeWithPins\<close>

text \<open>In \<^verbatim>\<open>GlobeWithPins\<close> a click stores no target while \<^verbatim>\<open>globeStateRef.current\<close> is
  \<^verbatim>\<open>null\<close>; it would store \<open>- (lng * pi / 180)\<close> in a ref that is set. Either way the
  per-frame update of \<^verbatim>\<open>World\<close> reads no target: it is the constant increment only.\<close>

lemma focusOnPin_without_ref: "focusOnPin pn (None, a) = (None, Some pn)"
  by (simp add: focusOnPin_def)

lemma focusOnPin_with_ref:
  "focusOnPin pn (Some g, a) =
     (Some (g\<lparr>gs_targetPhi := Some (js_neg (js_div (js_mul (pin_lng pn) js_PI) (Num 180)))\<rparr>),
      Some pn)"
  by (simp add: focusOnPin_def)

lemma World_onRender_idle:
  "World_onRender pins_globeConfig (Num p) = Num (p + 0.0012)"
  by (simp add: World_onRender_def pins_globeConfig_def)

text \<open>No event sets \<^verbatim>\<open>globeStateRef.current\<close>: it is \<^verbatim>\<open>null\<close> in every state the mounted
  component reaches.\<close>

lemma pins_step_keeps_ref_unset:
  "globeStateRef s = None \<Longrightarrow> globeStateRef (pins_step s e) = None"
  by (cases e) (simp_all add: focusOnPin_def Let_def)

lemma pins_exec_keeps_ref_unset:
  "globeStateRef s = None \<Longrightarrow> globeStateRef (pins_exec s evs) = None"
  unfolding pins_exec_def
  by (induction evs arbitrary: s) (simp_all add: pins_step_keeps_ref_unset)

lemma pins_ref_never_set: "globeStateRef (pins_exec pins_mount evs) = None"
  by (rule pins_exec_keeps_ref_unset) (simp add: pins_mount_def)

text \<open>
  C4. The claim is that once a marker click has set a target longitude \<open>L\<close>, every frame
  replaces \<open>phi\<close> by \<open>phi + (- radians(L) - phi) * 0.06\<close>. In the mounted
  \<^verbatim>\<open>GlobeWithPins\<close> the click on the New York pin (\<open>L = -74.006\<close>) makes it the active
  pin but stores no target, since the rotation ref is \<^verbatim>\<open>null\<close>; the next frame of
  \<^verbatim>\<open>World\<close> moves \<open>phi\<close> from \<open>-0.6\<close> by the constant 0.0012, which is not the
  interpolation step toward \<open>74.006 * pi / 180\<close>.
\<close>

theorem pins_click_is_not_followed_by_seek:
  "globeStateRef (pins_exec pins_mount [PinsClick 2]) = None
   \<and> activePin (pins_exec pins_mount [PinsClick 2]) = Some (PINS ! 2)
   \<and> pin_lng (PINS ! 2) = Num (- 74.0060)
   \<and> world_phi (pins_exec pins_mount [PinsClick 2]) = Num (- 0.6)
   \<and> world_phi (pins_exec pins_mount [PinsClick 2, PinsFrame]) = Num (- 0.6 + 0.0012)
   \<and> world_phi (pins_exec pins_mount [PinsClick 2, PinsFrame])
        \<noteq> Num (- 0.6 + (- (- 74.0060 * pi / 180) - (- 0.6)) * 0.06)"
proof -
  define D :: real where "D = (- (- 74.0060 * pi / 180) - (- 0.6)) * 0.06"
  have "0 < 87 + 37003 * pi / 600"
    by (intro add_pos_pos) simp_all
  then have lt: "0.0012 < D"
    unfolding D_def by simp
  have click: "globeStateRef (pins_exec pins_mount [PinsClick 2]) = None
      \<and> activePin (pins_exec pins_mount [PinsClick 2]) = Some (PINS ! 2)
      \<and> pin_lng (PINS ! 2) = Num (- 74.0060)
      \<and> world_phi (pins_exec pins_mount [PinsClick 2]) = Num (- 0.6)"
    by (simp add: pins_exec_def pins_mount_def pins_globeConfig_def PINS_def focusOnPin_def
        Let_def)
  have frame: "world_phi (pins_exec pins_mount [PinsClick 2, PinsFrame]) = Num (- 0.6 + 0.0012)"
    by (simp add: pins_exec_def pins_mount_def pins_globeConfig_def PINS_def focusOnPin_def
        World_onRender_def Let_def)
  have "- 0.6 + 0.0012 \<noteq> - 0.6 + D"
  proof
    assume "- 0.6 + 0.0012 = - 0.6 + D"
    then have "0.0012 = D" by (simp only: add_left_cancel)
    with lt show False by (simp only: less_irrefl)
  qed
  then have "Num (- 0.6 + 0.0012) \<noteq> Num (- 0.6 + D)"
    by (simp only: jsnum.inject not_False_eq_True)
  then have "world_phi (pins_exec pins_mount [PinsClick 2, PinsFrame])
        \<noteq> Num (- 0.6 + (- (- 74.0060 * pi / 180) - (- 0.6)) * 0.06)"
    unfolding D_def by (simp only: frame not_False_eq_True)
  with click frame show ?thesis by blast
qed

section \<open>Non-finite targets\<close>

text \<open>
  C5, as stated: a non-finite target is ignored and \<open>phi\<close> stays finite. The update tests
  only \<^verbatim>\<open>typeof t === "number"\<close>, which \<^verbatim>\<open>NaN\<close> passes: with the target \<^verbatim>\<open>NaN\<close> the
  frame after mounting turns the finite \<open>phi\<close> into \<^verbatim>\<open>NaN\<close>.
\<close>

theorem nan_target_reaches_phi:
  "isFinite (phi mount) \<and> \<not> isFinite (phi (onRender (mount\<lparr>targetPhi := Some NaN\<rparr>)))"
  by (simp add: onRender_def Let_def mount_def run_def loop_head_def first_render_def
      js_PI_def js_sub_def)

text \<open>
  C5, amended. The update applies the interpolation to every target that is a number and
  has no check for finiteness: from a finite \<open>phi\<close>, a \<^verbatim>\<open>NaN\<close> target makes \<open>phi\<close>
  \<^verbatim>\<open>NaN\<close>, an infinite target makes \<open>phi\<close> that infinity, and a finite target keeps
  \<open>phi\<close> finite; only a target that is not a number (\<^verbatim>\<open>null\<close>) is passed over, for the
  idle increment.
\<close>

theorem onRender_target_cases:
  assumes "phi s = Num p"
  shows "phi (onRender (s\<lparr>targetPhi := Some NaN\<rparr>)) = NaN
       \<and> phi (onRender (s\<lparr>targetPhi := Some PosInf\<rparr>)) = PosInf
       \<and> phi (onRender (s\<lparr>targetPhi := Some NegInf\<rparr>)) = NegInf
       \<and> phi (onRender (s\<lparr>targetPhi := Some (Num t)\<rparr>)) = Num (p + (t - p) * 0.06)
       \<and> phi (onRender (s\<lparr>targetPhi := None\<rparr>)) = Num (p + 0.0006)"
  using assms by (simp add: onRender_def Let_def js_sub_def inf_times_def)

theorem onRender_target_cases_witness:
  "phi (onRender (mount\<lparr>targetPhi := Some PosInf\<rparr>)) = PosInf
   \<and> phi (onRender (mount\<lparr>targetPhi := Some (Num 0)\<rparr>)) = Num (pi * 0.45 + (0 - pi * 0.45) * 0.06)"
proof -
  have p: "phi mount = Num (pi * 0.45)"
    by (simp add: mount_def run_def loop_head_def first_render_def js_PI_def)
  from onRender_target_cases [OF p, of 0] show ?thesis by simp
qed

section \<open>Convergence of the seek\<close>

lemma seek_step_gap: "T - seek_step s T p = (1 - s) * (T - p)"
  by (simp add: seek_step_def algebra_simps)

lemma seek_iter_gap: "T - (seek_step s T ^^ n) p = (1 - s) ^ n * (T - p)"
  by (induction n) (simp_all add: seek_step_gap)

lemma onRender_refines_seek_step:
  "targetPhi st = Some (Num T) \<Longrightarrow> phi st = Num p \<Longrightarrow>
     phi ((onRender ^^ n) st) = Num ((seek_step 0.06 T ^^ n) p)"
proof (induction n)
  case 0
  then show ?case by simp
next
  case (Suc n)
  have "targetPhi ((onRender ^^ n) st) = Some (Num T)"
    using Suc.prems(1) by (simp add: frames_targetPhi)
  moreover have "phi ((onRender ^^ n) st) = Num ((seek_step 0.06 T ^^ n) p)"
    using Suc by simp
  ultimately show ?case
    by (simp add: onRender_seek) (simp add: seek_step_def)
qed

text \<open>
  C6. For a strength \<open>s\<close> with \<open>0 < s < 1\<close>, any target \<open>T\<close> and any start \<open>p\<close>: each
  step of \<open>phi' = phi + (T - phi) * s\<close> multiplies the distance \<open>|T - phi|\<close> by \<open>1 - s\<close>,
  the iterates converge to \<open>T\<close>, and the sign of \<open>T - phi\<close> never changes. The frames of
  \<^verbatim>\<open>onRender\<close> with a finite target are these iterates for \<open>s = 0.06\<close>.
\<close>

theorem seek_converges_without_overshoot:
  assumes "0 < s" and "s < 1"
  shows "(\<forall>n. \<bar>T - (seek_step s T ^^ Suc n) p\<bar> = (1 - s) * \<bar>T - (seek_step s T ^^ n) p\<bar>)
       \<and> (\<lambda>n. (seek_step s T ^^ n) p) \<longlonglongrightarrow> T
       \<and> (\<forall>n. sgn (T - (seek_step s T ^^ n) p) = sgn (T - p))
       \<and> (\<forall>st n. targetPhi st = Some (Num T) \<and> phi st = Num p \<longrightarrow>
             phi ((onRender ^^ n) st) = Num ((seek_step 0.06 T ^^ n) p))"
proof -
  have pos: "0 < (1 - s) ^ n" for n
    using assms by simp
  have shrink: "\<bar>T - (seek_step s T ^^ Suc n) p\<bar> = (1 - s) * \<bar>T - (seek_step s T ^^ n) p\<bar>" for n
    using assms by (simp add: seek_step_gap abs_mult)
  have "(\<lambda>n. (1 - s) ^ n) \<longlonglongrightarrow> 0"
    using assms by (intro LIMSEQ_realpow_zero) simp_all
  then have "(\<lambda>n. (1 - s) ^ n * (T - p)) \<longlonglongrightarrow> 0 * (T - p)"
    by (intro tendsto_mult tendsto_const)
  then have "(\<lambda>n. T - (1 - s) ^ n * (T - p)) \<longlonglongrightarrow> T - 0 * (T - p)"
    by (intro tendsto_diff tendsto_const)
  moreover have "(seek_step s T ^^ n) p = T - (1 - s) ^ n * (T - p)" for n
    using seek_iter_gap [where T = T and s = s and n = n and p = p] by simp
  ultimately have lim: "(\<lambda>n. (seek_step s T ^^ n) p) \<longlonglongrightarrow> T"
    by simp
  have sign: "sgn (T - (seek_step s T ^^ n) p) = sgn (T - p)" for n
  proof -
    have "sgn ((1 - s) ^ n) = 1"
      using pos [of n] by (rule sgn_pos)
    then have "sgn ((1 - s) ^ n * (T - p)) = sgn (T - p)"
      by (simp only: sgn_mult mult_1)
    then show ?thesis by (simp only: seek_iter_gap)
  qed
  from shrink lim sign show ?thesis
    by (simp add: onRender_refines_seek_step)
qed

theorem seek_converges_without_overshoot_witness:
  "\<bar>1 - (seek_step 0.06 1 ^^ Suc 0) 0\<bar> = (1 - 0.06) * \<bar>1 - (seek_step 0.06 1 ^^ 0) 0\<bar>
   \<and> (\<lambda>n. (seek_step 0.06 1 ^^ n) 0) \<longlonglongrightarrow> 1
   \<and> sgn (1 - (seek_step 0.06 1 ^^ 2) 0) = sgn ((1::real) - 0)
   \<and> phi ((onRender ^^ 2) (mount\<lparr>targetPhi := Some (Num 1), phi := Num 0\<rparr>))
        = Num ((seek_step 0.06 1 ^^ 2) 0)"
proof -
  have s: "(0::real) < 0.06" "(0.06::real) < 1" by simp_all
  note th = seek_converges_without_overshoot [OF s, where T = 1 and p = 0]
  have st: "targetPhi (mount\<lparr>targetPhi := Some (Num 1), phi := Num 0\<rparr>) = Some (Num 1)
      \<and> phi (mount\<lparr>targetPhi := Some (Num 1), phi := Num 0\<rparr>) = Num 0"
    by simp
  from th have c1:
    "\<bar>1 - (seek_step 0.06 1 ^^ Suc 0) 0\<bar> = (1 - 0.06) * \<bar>1 - (seek_step 0.06 1 ^^ 0) 0\<bar>"
    by blast
  from th have c2: "(\<lambda>n. (seek_step 0.06 1 ^^ n) 0) \<longlonglongrightarrow> 1"
    by blast
  from th have c3: "sgn (1 - (seek_step 0.06 1 ^^ 2) 0) = sgn ((1::real) - 0)"
    by blast
  from th st have c4:
    "phi ((onRender ^^ 2) (mount\<lparr>targetPhi := Some (Num 1), phi := Num 0\<rparr>))
        = Num ((seek_step 0.06 1 ^^ 2) 0)"
    by blast
  from c1 c2 c3 c4 show ?thesis by blast
qed

section \<open>The card sequence\<close>

lemma mount_state:
  "mount = first_render\<lparr>targetPhi := Some (lonToPhi (Num 3)), activeIndex := Some 0,
       timer := Some SHOW_MS, pc := AwaitShow\<rparr>"
  by (simp add: mount_def run_def loop_head_def first_render_def players_def Let_def)

text \<open>A click changes nothing that \<^verbatim>\<open>run\<close> reads or waits for.\<close>

lemma pin_onClick_leaves_run:
  "pc (pin_onClick k s) = pc s \<and> timer (pin_onClick k s) = timer s
   \<and> run_running (pin_onClick k s) = run_running s \<and> mounted (pin_onClick k s) = mounted s
   \<and> idx (pin_onClick k s) = idx s \<and> localLoop (pin_onClick k s) = localLoop s"
  by (simp add: pin_onClick_def Let_def)

text \<open>
  C1. The claim is that after a manual click no automatic advance of the active index
  occurs. Clicking marker 0 while card 1 is showing sets the active index to 0 and
  \<open>running\<close> to false; yet when the pending show timer expires the clicked card is
  hidden, and when the fade timer expires the sequence shows card 2 and seeks to its
  longitude, with \<open>running\<close> still false: the loop of \<^verbatim>\<open>run\<close> tests the \<^verbatim>\<open>running\<close> of
  the first render, which stays true.
\<close>

theorem click_does_not_stop_sequence:
  "activeIndex (exec mount [TimerFired, TimerFired]) = Some 1
   \<and> activeIndex (exec mount [TimerFired, TimerFired, PinClick 0]) = Some 0
   \<and> running (exec mount [TimerFired, TimerFired, PinClick 0]) = False
   \<and> activeIndex (exec mount [TimerFired, TimerFired, PinClick 0, TimerFired]) = None
   \<and> activeIndex (exec mount [TimerFired, TimerFired, PinClick 0, TimerFired, TimerFired])
        = Some 2
   \<and> targetPhi (exec mount [TimerFired, TimerFired, PinClick 0, TimerFired, TimerFired])
        = Some (lonToPhi (Num (- 2)))
   \<and> running (exec mount [TimerFired, TimerFired, PinClick 0, TimerFired, TimerFired])
        = False"
  by (simp add: exec_def mount_state first_render_def timer_fired_def loop_head_def
      pin_onClick_def players_def findIndex_def LOOPS_def Let_def)

text \<open>
  C3. The claim is that once the sequence has wrapped and reached the loop limit, \<open>phi\<close>
  stays unchanged on every later frame. After the six timer expiries of the one loop the
  sequence has returned with \<open>running\<close> false and the target cleared to \<^verbatim>\<open>null\<close>; the next
  frame therefore takes the idle branch and adds 0.0006 to \<open>phi\<close>, and so does the frame
  after it.
\<close>

theorem idle_rotation_after_sequence:
  "pc (exec mount [Frame, TimerFired, TimerFired, TimerFired, TimerFired, TimerFired, TimerFired])
      = Returned
   \<and> running (exec mount [Frame, TimerFired, TimerFired, TimerFired, TimerFired, TimerFired,
        TimerFired]) = False
   \<and> targetPhi (exec mount [Frame, TimerFired, TimerFired, TimerFired, TimerFired, TimerFired,
        TimerFired]) = None
   \<and> phi (exec mount [Frame, TimerFired, TimerFired, TimerFired, TimerFired, TimerFired,
        TimerFired, Frame])
      = js_add (phi (exec mount [Frame, TimerFired, TimerFired, TimerFired, TimerFired,
          TimerFired, TimerFired])) (Num 0.0006)
   \<and> phi (exec mount [Frame, TimerFired, TimerFired, TimerFired, TimerFired, TimerFired,
        TimerFired, Frame])
      \<noteq> phi (exec mount [Frame, TimerFired, TimerFired, TimerFired, TimerFired, TimerFired,
          TimerFired])
   \<and> phi (exec mount [Frame, TimerFired, TimerFired, TimerFired, TimerFired, TimerFired,
        TimerFired, Frame, Frame])
      = js_add (phi (exec mount [Frame, TimerFired, TimerFired, TimerFired, TimerFired,
          TimerFired, TimerFired, Frame])) (Num 0.0006)"
  by (simp add: exec_def mount_state first_render_def timer_fired_def loop_head_def
      onRender_def lonToPhi_def js_PI_def js_sub_def players_def LOOPS_def Let_def)

lemma js_max_finite: "js_max (Num a) (Num b) = Num (max a b)"
  by (simp add: js_max_def max_def)

lemma js_min_finite: "js_min (Num a) (Num b) = Num (min a b)"
  by (simp add: js_min_def min_def)

lemma js_sub_finite: "js_sub (Num a) (Num b) = Num (a - b)"
  by (simp add: js_sub_def)

section \<open>The anchor of the card\<close>

text \<open>
  C8, as stated: the card is placed a fixed offset above the marker's projected \<open>y\<close>. For
  a visible marker 50 pixels below the top of the half-globe wrapper the card of
  \<^verbatim>\<open>HomepageAnimation\<close> is at the top 36, not 72 above the marker; for a visible marker at
  \<open>y = 120\<close> the popup of \<^verbatim>\<open>GlobeWithPins\<close> is at the top 24, not 110 above the marker.
\<close>

theorem card_top_not_fixed_offset:
  "card_top (card_anchor \<lparr>size_w = Num 920, size_h = Num 920\<rparr>
       \<lparr>pos_x = Num 400, pos_y = Num 510, pos_visible = True\<rparr>) = Num 36
   \<and> Num 36 \<noteq> js_sub (js_sub (Num 510) (js_div (Num 920) (Num 2))) (Num 72)
   \<and> card_top (popup_anchor
       (Some \<lparr>offsetWidth = Num 680, offsetHeight = Num 680, offsetLeft = Num 260,
              rect_left = Num 360, rect_top = Num 200\<rparr>)
       \<lparr>pos_x = Num 400, pos_y = Num 120, pos_visible = True\<rparr>) = Num 24
   \<and> Num 24 \<noteq> js_sub (Num 120) (Num 110)"
  by (simp add: card_anchor_def popup_anchor_def js_sub_finite js_max_finite js_min_finite
      js_ge_def js_le_def js_gt_def Let_def)

text \<open>
  C8, amended. Write \<open>W\<close> for the width the component uses (\<^verbatim>\<open>size.w\<close>; the wrapper's
  \<^verbatim>\<open>offsetWidth\<close>, or 680 without a wrapper), \<open>m\<close> for its margin (60; 48), \<open>d\<close> for its
  offset (72; 110) and \<open>t\<close> for its least top (36; 24). The marker counts as shown when it
  is on the front hemisphere and, in \<^verbatim>\<open>HomepageAnimation\<close>, its \<open>y\<close> relative to the
  wrapper lies in \<open>[0, h/2]\<close>, in \<^verbatim>\<open>GlobeWithPins\<close>, \<open>y - 110 > 0\<close>. For a marker that is
  shown, the card's left is the marker's \<open>x\<close> clamped as \<open>max m (min (W - m) x)\<close> (which is
  within \<open>[m, W - m]\<close> when \<open>W \<ge> 2m\<close>), and its top is the offset above the marker but
  never less than the least top: \<open>max t (y - d)\<close>. For a marker that is not shown the card
  keeps a fixed default top (36; 28), and in \<^verbatim>\<open>GlobeWithPins\<close> its left is the
  horizontal centre \<open>W / 2\<close>.
\<close>

theorem card_anchor_placement:
  "card_top (card_anchor \<lparr>size_w = Num w, size_h = Num h\<rparr>
          \<lparr>pos_x = Num x, pos_y = Num y, pos_visible = v\<rparr>)
      = (if v \<and> 0 \<le> y - h / 2 \<and> y - h / 2 \<le> h / 2
         then Num (max 36 (y - h / 2 - 72)) else Num 36)
   \<and> (v \<and> 0 \<le> y - h / 2 \<and> y - h / 2 \<le> h / 2 \<longrightarrow>
      card_left (card_anchor \<lparr>size_w = Num w, size_h = Num h\<rparr>
          \<lparr>pos_x = Num x, pos_y = Num y, pos_visible = v\<rparr>)
        = Num (max 60 (min (w - 60) x)))
   \<and> popup_anchor (Some (wr\<lparr>offsetWidth := Num ww\<rparr>))
          \<lparr>pos_x = Num x, pos_y = Num y, pos_visible = v\<rparr>
        = (if v \<and> 0 < y - 110
           then \<lparr>card_left = Num (max 48 (min (ww - 48) x)), card_top = Num (max 24 (y - 110))\<rparr>
           else \<lparr>card_left = Num (ww / 2), card_top = Num 28\<rparr>)
   \<and> popup_anchor None \<lparr>pos_x = Num x, pos_y = Num y, pos_visible = v\<rparr>
        = (if v \<and> 0 < y - 110
           then \<lparr>card_left = Num (max 48 (min (680 - 48) x)), card_top = Num (max 24 (y - 110))\<rparr>
           else \<lparr>card_left = Num (680 / 2), card_top = Num 28\<rparr>)
   \<and> (120 \<le> w \<longrightarrow> 60 \<le> max 60 (min (w - 60) x) \<and> max 60 (min (w - 60) x) \<le> w - 60)
   \<and> (96 \<le> ww \<longrightarrow> 48 \<le> max 48 (min (ww - 48) x) \<and> max 48 (min (ww - 48) x) \<le> ww - 48)"
  by (auto simp: card_anchor_def popup_anchor_def js_sub_finite js_max_finite js_min_finite
      js_ge_def js_le_def js_gt_def Let_def)

theorem card_anchor_placement_witness:
  "card_top (card_anchor \<lparr>size_w = Num 920, size_h = Num 920\<rparr>
          \<lparr>pos_x = Num 900, pos_y = Num 700, pos_visible = True\<rparr>) = Num 168
   \<and> card_left (card_anchor \<lparr>size_w = Num 920, size_h = Num 920\<rparr>
          \<lparr>pos_x = Num 900, pos_y = Num 700, pos_visible = True\<rparr>) = Num 860
   \<and> popup_anchor
        (Some \<lparr>offsetWidth = Num 680, offsetHeight = Num 680, offsetLeft = Num 260,
               rect_left = Num 360, rect_top = Num 200\<rparr>)
        \<lparr>pos_x = Num 900, pos_y = Num 700, pos_visible = True\<rparr>
      = \<lparr>card_left = Num 632, card_top = Num 590\<rparr>
   \<and> popup_anchor None \<lparr>pos_x = Num 900, pos_y = Num 700, pos_visible = True\<rparr>
      = \<lparr>card_left = Num 632, card_top = Num 590\<rparr>
   \<and> (60::real) \<le> max 60 (min (920 - 60) 900) \<and> max 60 (min (920 - 60) 900) \<le> (920::real) - 60
   \<and> (48::real) \<le> max 48 (min (680 - 48) 900) \<and> max 48 (min (680 - 48) 900) \<le> (680::real) - 48"
  using card_anchor_placement
    [where w = 920 and h = 920 and x = 900 and y = 700 and v = True and ww = 680
       and wr = "\<lparr>offsetWidth = Num 680, offsetHeight = Num 680, offsetLeft = Num 260,
               rect_left = Num 360, rect_top = Num 200\<rparr>"]
  by simp

section \<open>The inset box\<close>




text \<open>
  The translation of \<^verbatim>\<open>GlobeWithPins\<close> runs only past its guard, with
  \<^verbatim>\<open>globeStateRef.current\<close> set. The mounted component never sets it, so its
  \<^verbatim>\<open>latLngToScreen\<close> returns the not-ready value on every call and projects no marker.
\<close>

lemma pins_projection_never_ready:
  "latLngToScreen_pins (globeStateRef (pins_exec pins_mount evs)) wrapperRef scrollY lat lng
     = not_ready"
  by (simp add: pins_ref_never_set latLngToScreen_pins_def)

text \<open>Were the ref set, the translation would not be relative to the wrapper: it
  subtracts \<^verbatim>\<open>window.scrollY\<close> from \<open>y\<close> and \<^verbatim>\<open>getBoundingClientRect().left\<close> twice
  from \<open>x\<close>.\<close>

lemma pins_translation_with_ref_set:
  "latLngToScreen_pins (Some \<lparr>gs_phi = Num 0, gs_targetPhi = None\<rparr>)
       (Some \<lparr>offsetWidth = Num 680, offsetHeight = Num 680, offsetLeft = Num 260,
              rect_left = Num 360, rect_top = Num (- 300)\<rparr>)
       (Num 500) (Num 0) (Num 0)
     = \<lparr>pos_x = Num 203, pos_y = Num (- 160), pos_visible = False\<rparr>"
  by (simp add: latLngToScreen_pins_finite)

text \<open>With \<open>phi\<close> at the seek target \<^verbatim>\<open>lonToPhi(-17)\<close> of the second player, the
  projection places that player's marker on the far side.\<close>

lemma second_player_hidden_at_seek_target:
  "pos_visible (latLngToScreen (Some \<lparr>ref_phi = lonToPhi (Num (- 17)), ref_theta = th\<rparr>) (Some w) sz
       (Num 14) (Num (- 17))) = False"
proof -
  have "0 < sin (34 * pi / 180)"
    by (intro sin_gt_zero) (simp_all add: pi_gt_zero)
  then have "sin (- 17 * pi / 180 - - (- 17 * pi / 180)) < 0"
    by simp
  moreover have "0 < cos (14 * pi / 180)"
    by (intro cos_gt_zero_pi) simp_all
  ultimately have "cos (14 * pi / 180) * sin (- 17 * pi / 180 - - (- 17 * pi / 180)) < 0"
    by (simp add: mult_pos_neg)
  then show ?thesis
    by (simp add: lonToPhi_finite latLngToScreen_visible_iff)
qed

end
